theory Spec2Isabelle
  imports Complex_Main "HOL-Library.List_Lexorder" "HOL-Library.Char_ord"
begin

section \<open>Data model\<close>

text \<open>
  The two sheets of the workbook are lists of rows. A date is kept at day granularity as
  its proleptic Gregorian ordinal (what \<^verbatim>\<open>date.toordinal()\<close> returns), so
  that the comparisons of the source are \<open>\<le>\<close> and \<open><\<close> on integers and a difference of
  two dates is a number of days. Amounts are exact rationals: the source computes on
  binary floats, and every equation below is one of exact arithmetic, which the floats
  follow up to rounding.
\<close>

type_synonym date = int
type_synonym amount = rat

text \<open>\<^verbatim>\<open>datetime.date(y, m, d).toordinal()\<close>, as CPython computes it.\<close>

definition is_leap :: "int \<Rightarrow> bool" where
  "is_leap y = (y mod 4 = 0 \<and> (y mod 100 \<noteq> 0 \<or> y mod 400 = 0))"

definition days_before_year :: "int \<Rightarrow> int" where
  "days_before_year year =
     (let y = year - 1 in y * 365 + y div 4 - y div 100 + y div 400)"

definition days_before_month :: "int \<Rightarrow> nat \<Rightarrow> int" where
  "days_before_month year month =
     sum_list (take (month - 1) [31, 28, 31, 30, 31, 30, 31, 31, 30, 31, 30, 31])
       + (if 2 < month \<and> is_leap year then 1 else 0)"

definition ymd :: "int \<Rightarrow> nat \<Rightarrow> nat \<Rightarrow> date" where
  "ymd year month day = days_before_year year + days_before_month year month + int day"

record invoice =
  invoice_id :: string
  customer_id :: string
  customer_name :: string
  company_name :: string
  branch :: string
  invoice_date :: date
  due_date :: "date option"
  total_amount :: amount
  machine_revenue :: amount
  parts_revenue :: amount
  service_revenue :: amount

record payment =
  payment_id :: string
  pay_invoice_id :: string
  payment_date :: date
  payment_amount :: amount

datatype error = ValueError | KeyError

section \<open>Shared table operations\<close>

text \<open>
  \<^verbatim>\<open>df.groupby(key)[col].sum()\<close>: one entry per distinct key, keys in ascending
  order; a row whose key is missing (\<open>None\<close>, pandas' NaN) belongs to no group.
\<close>

definition groupby_sum ::
  "('r \<Rightarrow> 'k::linorder option) \<Rightarrow> ('r \<Rightarrow> amount) \<Rightarrow> 'r list \<Rightarrow> ('k \<times> amount) list" where
  "groupby_sum key val rows =
     map (\<lambda>k. (k, sum_list (map val (filter (\<lambda>r. key r = Some k) rows))))
       (sort (remdups (List.map_filter key rows)))"

text \<open>Reading an aggregate at a label, followed by \<^verbatim>\<open>fillna(0.0)\<close>.\<close>

definition fillna0 :: "('k \<times> amount) list \<Rightarrow> 'k \<Rightarrow> amount" where
  "fillna0 agg k = (case map_of agg k of None \<Rightarrow> 0 | Some v \<Rightarrow> v)"

text \<open>
  \<^verbatim>\<open>df_payments.merge(df_invoices[...], on="Invoice ID", how="left")\<close>: every payment
  row is kept, in order; it is paired with each invoice of the same Invoice ID, and with
  missing values when there is none.
\<close>

definition merge_left :: "payment list \<Rightarrow> invoice list \<Rightarrow> (payment \<times> invoice option) list" where
  "merge_left pays invs =
     concat (map (\<lambda>p. case filter (\<lambda>i. invoice_id i = pay_invoice_id p) invs of
                         [] \<Rightarrow> [(p, None)]
                       | ms \<Rightarrow> map (\<lambda>i. (p, Some i)) ms) pays)"

section \<open>Receivables report\<close>

datatype bucket = Current | Days_1_30 | Days_31_60 | Days_61_90 | Days_90_plus

text \<open>The rows of \<^verbatim>\<open>filtered_df\<close> once steps 1 to 3 have added their columns.\<close>

record merged_row =
  inv :: invoice
  PaidToDate :: amount
  Outstanding :: amount
  DaysPastDue :: int
  AgingBucket :: bucket

definition aging_bucket :: "int \<Rightarrow> bucket" where
  "aging_bucket days =
     (if days \<le> 0 then Current
      else if days \<le> 30 then Days_1_30
      else if days \<le> 60 then Days_31_60
      else if days \<le> 90 then Days_61_90
      else Days_90_plus)"

text \<open>
  \<^verbatim>\<open>(pd.to_datetime(today_date) - filtered_df["Due Date"]).dt.days.fillna(0)\<close>
\<close>

definition days_past_due :: "date \<Rightarrow> date option \<Rightarrow> int" where
  "days_past_due today due = (case due of None \<Rightarrow> 0 | Some d \<Rightarrow> today - d)"

definition distribute_partial_payments ::
  "'a merged_row_scheme \<Rightarrow> amount \<times> amount \<times> amount" where
  "distribute_partial_payments row =
     (let total_inv = total_amount (inv row);
          paid = PaidToDate row
      in if total_inv \<le> 0
         then (machine_revenue (inv row), parts_revenue (inv row), service_revenue (inv row))
         else
           let mach_share = machine_revenue (inv row) / total_inv;
               parts_share = parts_revenue (inv row) / total_inv;
               serv_share = service_revenue (inv row) / total_inv;
               mach_paid = paid * mach_share;
               parts_paid = paid * parts_share;
               serv_paid = paid * serv_share;
               mach_os = machine_revenue (inv row) - mach_paid;
               parts_os = parts_revenue (inv row) - parts_paid;
               serv_os = service_revenue (inv row) - serv_paid
           in (mach_os, parts_os, serv_os))"


text \<open>\<^verbatim>\<open>filtered_df\<close> after step 4: the three allocated columns are added.\<close>

record os_row = merged_row +
  MachineOS :: amount
  PartsOS :: amount
  ServiceOS :: amount

text \<open>Step 1: payments up to today, summed per Invoice ID.\<close>

definition paid_agg :: "date \<Rightarrow> payment list \<Rightarrow> (string \<times> amount) list" where
  "paid_agg today_date pays =
     groupby_sum (\<lambda>p. Some (pay_invoice_id p)) payment_amount
       (filter (\<lambda>p. payment_date p \<le> today_date) pays)"

text \<open>
  Steps 1 to 4 for the invoices inside the date range: the left merge with
  \<^verbatim>\<open>paid_agg\<close> (unique labels, so one row per invoice), the missing sums
  filled with 0, Outstanding, the filter on Invoice Date, Days Past Due, Aging Bucket and
  the allocation.
\<close>

definition filtered_df ::
  "date \<Rightarrow> invoice list \<Rightarrow> payment list \<Rightarrow> date \<Rightarrow> date \<Rightarrow> os_row list" where
  "filtered_df today_date invs pays from_date to_date =
     map (\<lambda>i.
            let paid = fillna0 (paid_agg today_date pays) (invoice_id i);
                days = days_past_due today_date (due_date i);
                row = \<lparr>inv = i, PaidToDate = paid, Outstanding = total_amount i - paid,
                       DaysPastDue = days, AgingBucket = aging_bucket days\<rparr>
            in case distribute_partial_payments row of
                 (m, p, s) \<Rightarrow>
                   \<lparr>inv = i, PaidToDate = paid, Outstanding = total_amount i - paid,
                    DaysPastDue = days, AgingBucket = aging_bucket days,
                    MachineOS = m, PartsOS = p, ServiceOS = s\<rparr>)
       (filter (\<lambda>i. from_date \<le> invoice_date i \<and> invoice_date i \<le> to_date) invs)"

text \<open>
  Step 5. The grouping choices are the five options the sidebar offers; "Grand Total" has
  no grouping column, "Branch Wise Details" groups by Branch, every other choice is the
  name of the column itself.
\<close>

datatype group_by = GrandTotal | CustomerID | CompanyName | CustomerName | BranchWiseDetails

definition group_col :: "group_by \<Rightarrow> (invoice \<Rightarrow> string) option" where
  "group_col gb =
     (case gb of
        GrandTotal \<Rightarrow> None
      | BranchWiseDetails \<Rightarrow> Some branch
      | CustomerID \<Rightarrow> Some customer_id
      | CompanyName \<Rightarrow> Some company_name
      | CustomerName \<Rightarrow> Some customer_name)"

text \<open>
  Step 7. The aging pivot is a frame with one column per bucket that occurs in the data
  and one row per index label; a (label, bucket) pair with no invoice holds the fill
  value 0.
\<close>

record aging_pivot =
  columns :: "bucket list"
  cell :: "string \<Rightarrow> bucket \<Rightarrow> amount"

definition pivot_table :: "(invoice \<Rightarrow> string) \<Rightarrow> os_row list \<Rightarrow> aging_pivot" where
  "pivot_table col rows =
     \<lparr>columns = remdups (map AgingBucket rows),
      cell = (\<lambda>g b. case filter (\<lambda>r. col (inv r) = g \<and> AgingBucket r = b) rows of
                       [] \<Rightarrow> 0
                     | sel \<Rightarrow> sum_list (map Outstanding sel))\<rparr>"

text \<open>
  Without a grouping column the pivot is the single row "Grand Total" built from
  \<^verbatim>\<open>filtered_df.groupby("Aging Bucket")["Outstanding"].sum()\<close>.
\<close>

definition grand_pivot :: "os_row list \<Rightarrow> aging_pivot" where
  "grand_pivot rows =
     \<lparr>columns = remdups (map AgingBucket rows),
      cell = (\<lambda>g b. sum_list (map Outstanding (filter (\<lambda>r. AgingBucket r = b) rows)))\<rparr>"

text \<open>
  \<^verbatim>\<open>if bucket not in aging_pivot.columns: aging_pivot[bucket] = 0\<close>, for the
  five buckets in turn.
\<close>

definition add_bucket :: "bucket \<Rightarrow> aging_pivot \<Rightarrow> aging_pivot" where
  "add_bucket b pv =
     (if b \<in> set (columns pv) then pv
      else \<lparr>columns = columns pv @ [b],
            cell = (\<lambda>g b'. if b' = b then 0 else cell pv g b')\<rparr>)"

definition fill_buckets :: "aging_pivot \<Rightarrow> aging_pivot" where
  "fill_buckets pv =
     fold add_bucket [Current, Days_1_30, Days_31_60, Days_61_90, Days_90_plus] pv"

text \<open>
  Reading one label of a grouped sum in a left join on the index. All the series joined
  in step 9 are grouped by the same column of the same frame, so the label is always
  there.
\<close>

definition join_at :: "(string \<times> amount) list \<Rightarrow> string \<Rightarrow> amount" where
  "join_at series g = (case map_of series g of Some v \<Rightarrow> v | None \<Rightarrow> 0)"

record report_row =
  Group :: string
  Total_OS :: amount
  Col_Current :: amount
  Col_1_30 :: amount
  Col_31_60 :: amount
  Col_61_90 :: amount
  Col_90_plus :: amount
  Machine_OS :: amount
  Parts_OS :: amount
  Service_OS :: amount

definition final_row ::
  "string \<Rightarrow> amount \<Rightarrow> aging_pivot \<Rightarrow> amount \<Rightarrow> amount \<Rightarrow> amount \<Rightarrow> report_row" where
  "final_row g tot pv m p s =
     \<lparr>Group = g, Total_OS = tot,
      Col_Current = cell pv g Current, Col_1_30 = cell pv g Days_1_30,
      Col_31_60 = cell pv g Days_31_60, Col_61_90 = cell pv g Days_61_90,
      Col_90_plus = cell pv g Days_90_plus,
      Machine_OS = m, Parts_OS = p, Service_OS = s\<rparr>"

text \<open>
  The whole generator. \<^verbatim>\<open>date.today()\<close> is the parameter \<open>today_date\<close>. When no
  invoice is inside the date range, \<^verbatim>\<open>filtered_df.apply(..., axis=1)\<close> has no
  rows, \<^verbatim>\<open>zip(*...)\<close> yields nothing and the assignment to three columns raises
  ValueError.
\<close>

definition create_receivables_report ::
  "date \<Rightarrow> invoice list \<Rightarrow> payment list \<Rightarrow> date \<Rightarrow> date \<Rightarrow> group_by
     \<Rightarrow> error + report_row list" where
  "create_receivables_report today_date invs pays from_date to_date gb =
     (case filtered_df today_date invs pays from_date to_date of
        [] \<Rightarrow> Inl ValueError
      | r # rs \<Rightarrow>
          let fdf = r # rs in
          case group_col gb of
            None \<Rightarrow>
              Inr [final_row ''Grand Total'' (sum_list (map Outstanding fdf))
                     (fill_buckets (grand_pivot fdf))
                     (sum_list (map MachineOS fdf))
                     (sum_list (map PartsOS fdf))
                     (sum_list (map ServiceOS fdf))]
          | Some col \<Rightarrow>
              let key = (\<lambda>r. Some (col (inv r)));
                  df_total = groupby_sum key Outstanding fdf;
                  pv = fill_buckets (pivot_table col fdf);
                  df_machine = groupby_sum key MachineOS fdf;
                  df_parts = groupby_sum key PartsOS fdf;
                  df_service = groupby_sum key ServiceOS fdf
              in Inr (map (\<lambda>(g, tot).
                             final_row g tot pv (join_at df_machine g) (join_at df_parts g)
                               (join_at df_service g))
                        df_total))"


text \<open>An invoice row with only the columns the allocator reads filled in.\<close>

definition alloc_row :: "amount \<Rightarrow> amount \<Rightarrow> amount \<Rightarrow> amount \<Rightarrow> amount \<Rightarrow> merged_row" where
  "alloc_row tot m p s paid =
     \<lparr>inv = \<lparr>invoice_id = ''I'', customer_id = ''C'', customer_name = ''N'',
             company_name = ''Co'', branch = ''B'', invoice_date = 0, due_date = None,
             total_amount = tot, machine_revenue = m, parts_revenue = p,
             service_revenue = s\<rparr>,
      PaidToDate = paid, Outstanding = tot - paid, DaysPastDue = 0,
      AgingBucket = Current\<rparr>"

section \<open>Banker report\<close>

text \<open>
  \<^verbatim>\<open>dfp_merged\<close>: the payments with the Customer Name of their invoice; the name is
  missing for a payment whose Invoice ID no invoice has.
\<close>

definition cust_of :: "payment \<times> invoice option \<Rightarrow> string option" where
  "cust_of row = map_option customer_name (snd row)"

definition pay_amt_of :: "payment \<times> invoice option \<Rightarrow> amount" where
  "pay_amt_of row = payment_amount (fst row)"

definition pay_date_of :: "payment \<times> invoice option \<Rightarrow> date" where
  "pay_date_of row = payment_date (fst row)"

record banker_row =
  Customer_Name :: string
  Opening_Balance :: amount
  Debits_Invoices :: amount
  Credits_Payments :: amount
  Balance :: amount

definition create_banker_report ::
  "invoice list \<Rightarrow> payment list \<Rightarrow> date \<Rightarrow> date \<Rightarrow> banker_row list" where
  "create_banker_report invs pays from_date to_date =
     (let dfp_merged = merge_left pays invs;
          df_inv_before = filter (\<lambda>i. invoice_date i < from_date) invs;
          df_pay_before = filter (\<lambda>r. pay_date_of r < from_date) dfp_merged;
          df_inv_range =
            filter (\<lambda>i. from_date \<le> invoice_date i \<and> invoice_date i \<le> to_date) invs;
          df_pay_range =
            filter (\<lambda>r. from_date \<le> pay_date_of r \<and> pay_date_of r \<le> to_date) dfp_merged;
          inv_before_agg = groupby_sum (\<lambda>i. Some (customer_name i)) total_amount df_inv_before;
          pay_before_agg = groupby_sum cust_of pay_amt_of df_pay_before;
          inv_range_agg = groupby_sum (\<lambda>i. Some (customer_name i)) total_amount df_inv_range;
          pay_range_agg = groupby_sum cust_of pay_amt_of df_pay_range;
          all_cust = sort (remdups (map fst inv_before_agg @ map fst pay_before_agg
                                    @ map fst inv_range_agg @ map fst pay_range_agg))
      in map (\<lambda>c.
                let opening_invoices = fillna0 inv_before_agg c;
                    opening_payments = fillna0 pay_before_agg c;
                    debits = fillna0 inv_range_agg c;
                    credits = fillna0 pay_range_agg c;
                    opening_balance = opening_invoices - opening_payments
                in \<lparr>Customer_Name = c, Opening_Balance = opening_balance,
                    Debits_Invoices = debits, Credits_Payments = credits,
                    Balance = opening_balance + debits - credits\<rparr>)
           all_cust)"

text \<open>
  The four slices in the words of the specification: the invoice totals of a customer
  dated before the window and inside it, and the payment amounts, joined to the invoices
  for the customer, dated before the window and inside it.
\<close>

definition OpeningInvoices :: "invoice list \<Rightarrow> date \<Rightarrow> string \<Rightarrow> amount" where
  "OpeningInvoices invs from_date c =
     sum_list (map total_amount
       (filter (\<lambda>i. customer_name i = c \<and> invoice_date i < from_date) invs))"

definition OpeningPayments :: "invoice list \<Rightarrow> payment list \<Rightarrow> date \<Rightarrow> string \<Rightarrow> amount" where
  "OpeningPayments invs pays from_date c =
     sum_list (map pay_amt_of
       (filter (\<lambda>r. cust_of r = Some c \<and> pay_date_of r < from_date) (merge_left pays invs)))"

definition DebitsInRange :: "invoice list \<Rightarrow> date \<Rightarrow> date \<Rightarrow> string \<Rightarrow> amount" where
  "DebitsInRange invs from_date to_date c =
     sum_list (map total_amount
       (filter (\<lambda>i. customer_name i = c \<and> from_date \<le> invoice_date i
                     \<and> invoice_date i \<le> to_date) invs))"

definition CreditsInRange ::
  "invoice list \<Rightarrow> payment list \<Rightarrow> date \<Rightarrow> date \<Rightarrow> string \<Rightarrow> amount" where
  "CreditsInRange invs pays from_date to_date c =
     sum_list (map pay_amt_of
       (filter (\<lambda>r. cust_of r = Some c \<and> from_date \<le> pay_date_of r
                     \<and> pay_date_of r \<le> to_date) (merge_left pays invs)))"

text \<open>The customers that have a row in at least one of the four slices.\<close>

definition slice_customers :: "invoice list \<Rightarrow> payment list \<Rightarrow> date \<Rightarrow> date \<Rightarrow> string set" where
  "slice_customers invs pays from_date to_date =
     set (map customer_name (filter (\<lambda>i. invoice_date i < from_date) invs))
     \<union> set (List.map_filter cust_of
             (filter (\<lambda>r. pay_date_of r < from_date) (merge_left pays invs)))
     \<union> set (map customer_name
             (filter (\<lambda>i. from_date \<le> invoice_date i \<and> invoice_date i \<le> to_date) invs))
     \<union> set (List.map_filter cust_of
             (filter (\<lambda>r. from_date \<le> pay_date_of r \<and> pay_date_of r \<le> to_date)
                (merge_left pays invs)))"

text \<open>The row of one customer as the specification defines it.\<close>

definition banker_line ::
  "invoice list \<Rightarrow> payment list \<Rightarrow> date \<Rightarrow> date \<Rightarrow> string \<Rightarrow> banker_row" where
  "banker_line invs pays from_date to_date c =
     \<lparr>Customer_Name = c,
      Opening_Balance = OpeningInvoices invs from_date c - OpeningPayments invs pays from_date c,
      Debits_Invoices = DebitsInRange invs from_date to_date c,
      Credits_Payments = CreditsInRange invs pays from_date to_date c,
      Balance = OpeningInvoices invs from_date c - OpeningPayments invs pays from_date c
                + DebitsInRange invs from_date to_date c
                - CreditsInRange invs pays from_date to_date c\<rparr>"

section \<open>Customer ledger\<close>

record ledger_event =
  Date :: date
  Txn_Type :: string
  Debits :: amount
  Credits :: amount

record ledger_row = ledger_event +
  Running_Balance :: amount

text \<open>The scan that accumulates the running balance, one value per event.\<close>

fun running_balance :: "amount \<Rightarrow> ledger_event list \<Rightarrow> amount list" where
  "running_balance current [] = []"
| "running_balance current (row # rows) =
     (let current' = current + Debits row - Credits row
      in current' # running_balance current' rows)"

definition ledger_rows ::
  "invoice list \<Rightarrow> payment list \<Rightarrow> date \<Rightarrow> date \<Rightarrow> string \<Rightarrow> ledger_event list" where
  "ledger_rows invs pays from_date to_date cust =
     (let dfp_merged = merge_left pays invs;
          df_inv = filter (\<lambda>i. customer_name i = cust \<and> from_date \<le> invoice_date i
                                \<and> invoice_date i \<le> to_date) invs;
          df_pay_cust = filter (\<lambda>r. cust_of r = Some cust \<and> from_date \<le> pay_date_of r
                                     \<and> pay_date_of r \<le> to_date) dfp_merged
      in map (\<lambda>row. \<lparr>Date = invoice_date row, Txn_Type = ''Invoice '' @ invoice_id row,
                      Debits = total_amount row, Credits = 0\<rparr>) df_inv
         @ map (\<lambda>row. \<lparr>Date = pay_date_of row, Txn_Type = ''Payment '' @ payment_id (fst row),
                        Debits = 0, Credits = pay_amt_of row\<rparr>) df_pay_cust)"

text \<open>
  The ledger. When the customer has no invoice and no payment inside the window,
  \<^verbatim>\<open>pd.DataFrame([])\<close> has no columns and \<^verbatim>\<open>sort_values(by="Date")\<close> raises
  KeyError. The sort by date is modelled by the stable insertion sort; the Date column is
  kept as a date (the source formats it as text at the very end).
\<close>

definition create_customer_ledger ::
  "invoice list \<Rightarrow> payment list \<Rightarrow> date \<Rightarrow> date \<Rightarrow> string \<Rightarrow> error + ledger_row list" where
  "create_customer_ledger invs pays from_date to_date cust =
     (case ledger_rows invs pays from_date to_date cust of
        [] \<Rightarrow> Inl KeyError
      | e # es \<Rightarrow>
          let ledger_df = sort_key Date (e # es);
              dfp_merged = merge_left pays invs;
              df_inv_before =
                sum_list (map total_amount
                  (filter (\<lambda>i. customer_name i = cust \<and> invoice_date i < from_date) invs));
              df_pay_before =
                sum_list (map pay_amt_of
                  (filter (\<lambda>r. cust_of r = Some cust \<and> pay_date_of r < from_date) dfp_merged));
              opening_balance = df_inv_before - df_pay_before
          in Inr (map (\<lambda>(row, bal). \<lparr>Date = Date row, Txn_Type = Txn_Type row,
                                      Debits = Debits row, Credits = Credits row,
                                      Running_Balance = bal\<rparr>)
                    (zip ledger_df (running_balance opening_balance ledger_df))))"

section \<open>Segment wise report\<close>






















section \<open>Sample data\<close>

text \<open>
  A small workbook used to run the generators: three invoices of two customers, and four
  payments of which the last names an invoice that does not exist.
\<close>

definition inv1 :: invoice where
  "inv1 = \<lparr>invoice_id = ''I1'', customer_id = ''C1'', customer_name = ''Bob'',
            company_name = ''Acme'', branch = ''North'', invoice_date = ymd 2024 5 10,
            due_date = Some (ymd 2024 6 9), total_amount = 1000, machine_revenue = 400,
            parts_revenue = 300, service_revenue = 300\<rparr>"

definition inv2 :: invoice where
  "inv2 = \<lparr>invoice_id = ''I2'', customer_id = ''C2'', customer_name = ''Al'',
            company_name = ''Acme'', branch = ''South'', invoice_date = ymd 2024 8 1,
            due_date = None, total_amount = 200, machine_revenue = 200,
            parts_revenue = 0, service_revenue = 0\<rparr>"

definition inv3 :: invoice where
  "inv3 = \<lparr>invoice_id = ''I3'', customer_id = ''C1'', customer_name = ''Bob'',
            company_name = ''Beta'', branch = ''North'', invoice_date = ymd 2023 12 1,
            due_date = Some (ymd 2023 12 31), total_amount = 300, machine_revenue = 100,
            parts_revenue = 100, service_revenue = 100\<rparr>"

definition pay1 :: payment where
  "pay1 = \<lparr>payment_id = ''P1'', pay_invoice_id = ''I1'', payment_date = ymd 2024 6 1,
            payment_amount = 500\<rparr>"

definition pay2 :: payment where
  "pay2 = \<lparr>payment_id = ''P2'', pay_invoice_id = ''I1'', payment_date = ymd 2024 8 15,
            payment_amount = 100\<rparr>"

definition pay3 :: payment where
  "pay3 = \<lparr>payment_id = ''P3'', pay_invoice_id = ''I3'', payment_date = ymd 2024 1 15,
            payment_amount = 100\<rparr>"

definition pay4 :: payment where
  "pay4 = \<lparr>payment_id = ''P4'', pay_invoice_id = ''I9'', payment_date = ymd 2024 6 2,
            payment_amount = 70\<rparr>"





section \<open>Theorems\<close>




text \<open>
  C6: the aging classifier maps days past due by exact boundaries: at most 0 (negative
  included) is Current, 1 to 30 is "1-30 Days", 31 to 60 is "31-60 Days", 61 to 90 is
  "61-90 Days", above 90 is "90+ Days"; a missing due date counts as 0 days past due and
  so is Current.
\<close>

theorem C6_aging_boundaries:
  "(aging_bucket days = Current) = (days \<le> 0)
   \<and> (aging_bucket days = Days_1_30) = (1 \<le> days \<and> days \<le> 30)
   \<and> (aging_bucket days = Days_31_60) = (31 \<le> days \<and> days \<le> 60)
   \<and> (aging_bucket days = Days_61_90) = (61 \<le> days \<and> days \<le> 90)
   \<and> (aging_bucket days = Days_90_plus) = (90 < days)
   \<and> days_past_due today None = 0
   \<and> aging_bucket (days_past_due today None) = Current"
  by (simp add: aging_bucket_def days_past_due_def)

text \<open>
  C7: for every invoice whose total is zero or negative the allocator returns the raw
  revenue triple (machine, parts, service) unchanged, whatever was paid.
\<close>

theorem C7_nonpositive_total_fallback:
  assumes "total_amount (inv row) \<le> 0"
  shows "distribute_partial_payments row
           = (machine_revenue (inv row), parts_revenue (inv row), service_revenue (inv row))"
  using assms by (simp add: distribute_partial_payments_def)

theorem C7_nonpositive_total_fallback_witness:
  "total_amount (inv (alloc_row 0 100 0 0 50)) \<le> 0
   \<and> PaidToDate (alloc_row 0 100 0 0 50) = 50
   \<and> distribute_partial_payments (alloc_row 0 100 0 0 50) = (100, 0, 0)"
  using C7_nonpositive_total_fallback [of "alloc_row 0 100 0 0 50"]
  by (simp add: alloc_row_def)

subsection \<open>Receivables report\<close>

lemma bucket_UNIV: "(UNIV :: bucket set) = {Current, Days_1_30, Days_31_60, Days_61_90, Days_90_plus}"
proof -
  have "b \<in> {Current, Days_1_30, Days_31_60, Days_61_90, Days_90_plus}" for b
    by (cases b) simp_all
  then show ?thesis by blast
qed

lemma columns_add_bucket: "set (columns (add_bucket b pv)) = insert b (set (columns pv))"
  by (auto simp: add_bucket_def)

lemma columns_fold_add_bucket:
  "set (columns (fold add_bucket bs pv)) = set (columns pv) \<union> set bs"
  by (induction bs arbitrary: pv) (auto simp: columns_add_bucket)

lemma cell_add_bucket:
  "cell (add_bucket b pv) g b' = (if b' = b \<and> b \<notin> set (columns pv) then 0 else cell pv g b')"
  by (simp add: add_bucket_def)

lemma cell_fold_add_bucket:
  "cell (fold add_bucket bs pv) g b =
     (if b \<in> set (columns pv) then cell pv g b
      else if b \<in> set bs then 0 else cell pv g b)"
proof (induction bs arbitrary: pv)
  case Nil
  show ?case by simp
next
  case (Cons a bs)
  show ?case
    by (simp add: Cons.IH columns_add_bucket cell_add_bucket)
qed

lemma columns_fill_buckets: "set (columns (fill_buckets pv)) = UNIV"
proof -
  have "set [Current, Days_1_30, Days_31_60, Days_61_90, Days_90_plus] = UNIV"
    by (simp add: bucket_UNIV)
  then show ?thesis
    unfolding fill_buckets_def by (simp only: columns_fold_add_bucket Un_UNIV_right)
qed

lemma cell_fill_buckets:
  "cell (fill_buckets pv) g b = (if b \<in> set (columns pv) then cell pv g b else 0)"
proof -
  have "b \<in> set [Current, Days_1_30, Days_31_60, Days_61_90, Days_90_plus]"
    by (cases b) simp_all
  then show ?thesis
    unfolding fill_buckets_def by (simp only: cell_fold_add_bucket if_True)
qed







lemma filled_absent:
  "b \<notin> set (columns pv) \<Longrightarrow> cell (fill_buckets pv) g b = 0"
  by (simp add: cell_fill_buckets)






subsection \<open>Banker report\<close>

lemma set_map_filter_key: "set (List.map_filter key rows) = {k. \<exists>r \<in> set rows. key r = Some k}"
  by (induction rows) (auto split: option.splits)

lemma keys_groupby_sum:
  "map fst (groupby_sum key val rows) = sort (remdups (List.map_filter key rows))"
  by (simp add: groupby_sum_def comp_def)

lemma map_filter_Some: "List.map_filter (\<lambda>x. Some (f x)) xs = map f xs"
  by (induction xs) simp_all

lemma fillna0_groupby_sum:
  "fillna0 (groupby_sum key val rows) k
     = sum_list (map val (filter (\<lambda>r. key r = Some k) rows))"
proof (cases "\<exists>r \<in> set rows. key r = Some k")
  case True
  then have "k \<in> set (sort (remdups (List.map_filter key rows)))"
    by (simp add: set_map_filter_key)
  then show ?thesis
    by (simp add: fillna0_def groupby_sum_def map_of_map_restrict)
next
  case False
  then have "k \<notin> set (sort (remdups (List.map_filter key rows)))"
    by (simp add: set_map_filter_key)
  moreover have "filter (\<lambda>r. key r = Some k) rows = []"
    using False by (auto simp: filter_empty_conv)
  ultimately show ?thesis
    by (simp add: fillna0_def groupby_sum_def map_of_map_restrict)
qed

lemma banker_all_cust:
  "sort (remdups
        (map fst (groupby_sum (\<lambda>i. Some (customer_name i)) total_amount
                    (filter (\<lambda>i. invoice_date i < from_date) invs))
         @ map fst (groupby_sum cust_of pay_amt_of
                    (filter (\<lambda>r. pay_date_of r < from_date) (merge_left pays invs)))
         @ map fst (groupby_sum (\<lambda>i. Some (customer_name i)) total_amount
                    (filter (\<lambda>i. from_date \<le> invoice_date i \<and> invoice_date i \<le> to_date) invs))
         @ map fst (groupby_sum cust_of pay_amt_of
                    (filter (\<lambda>r. from_date \<le> pay_date_of r \<and> pay_date_of r \<le> to_date)
                       (merge_left pays invs)))))
   = sorted_list_of_set (slice_customers invs pays from_date to_date)"
proof -
  let ?xs = "map fst (groupby_sum (\<lambda>i. Some (customer_name i)) total_amount
                    (filter (\<lambda>i. invoice_date i < from_date) invs))
         @ map fst (groupby_sum cust_of pay_amt_of
                    (filter (\<lambda>r. pay_date_of r < from_date) (merge_left pays invs)))
         @ map fst (groupby_sum (\<lambda>i. Some (customer_name i)) total_amount
                    (filter (\<lambda>i. from_date \<le> invoice_date i \<and> invoice_date i \<le> to_date) invs))
         @ map fst (groupby_sum cust_of pay_amt_of
                    (filter (\<lambda>r. from_date \<le> pay_date_of r \<and> pay_date_of r \<le> to_date)
                       (merge_left pays invs)))"
  have "set ?xs = slice_customers invs pays from_date to_date"
    by (simp only: set_append keys_groupby_sum set_sort set_remdups map_filter_Some
        slice_customers_def Un_assoc)
  then show ?thesis
    by (simp only: sorted_list_of_set_sort_remdups [symmetric])
qed

lemma banker_report_eq:
  "create_banker_report invs pays from_date to_date
     = map (banker_line invs pays from_date to_date)
         (sorted_list_of_set (slice_customers invs pays from_date to_date))"
  unfolding banker_all_cust [symmetric]
  by (simp add: create_banker_report_def Let_def fillna0_groupby_sum banker_line_def
      OpeningInvoices_def OpeningPayments_def DebitsInRange_def CreditsInRange_def conj_commute)

lemma finite_slice_customers: "finite (slice_customers invs pays from_date to_date)"
  by (simp add: slice_customers_def)

text \<open>
  C3: the Banker report has one row per customer of the union of the four slices, in
  ascending order of the name; in each row Balance is Opening Balance plus the debits in
  the range minus the credits in the range, Opening Balance is the opening invoices minus
  the opening payments of that customer, and each of the four sums is the sum over the
  customer's rows of that slice (0 when there are none).
\<close>

theorem C3_banker_balance:
  "sorted (map Customer_Name (create_banker_report invs pays from_date to_date))
   \<and> distinct (map Customer_Name (create_banker_report invs pays from_date to_date))
   \<and> set (map Customer_Name (create_banker_report invs pays from_date to_date))
       = slice_customers invs pays from_date to_date
   \<and> (\<forall>row \<in> set (create_banker_report invs pays from_date to_date).
        Balance row = Opening_Balance row + Debits_Invoices row - Credits_Payments row
        \<and> Opening_Balance row
            = OpeningInvoices invs from_date (Customer_Name row)
              - OpeningPayments invs pays from_date (Customer_Name row)
        \<and> Debits_Invoices row = DebitsInRange invs from_date to_date (Customer_Name row)
        \<and> Credits_Payments row
            = CreditsInRange invs pays from_date to_date (Customer_Name row))"
proof -
  let ?S = "slice_customers invs pays from_date to_date"
  have names: "map Customer_Name (create_banker_report invs pays from_date to_date)
                 = sorted_list_of_set ?S"
    by (simp add: banker_report_eq comp_def banker_line_def)
  have "sorted (sorted_list_of_set ?S)" by simp
  moreover have "distinct (sorted_list_of_set ?S)" by simp
  moreover have "set (sorted_list_of_set ?S) = ?S"
    using finite_slice_customers by simp
  moreover have "\<forall>row \<in> set (create_banker_report invs pays from_date to_date).
        Balance row = Opening_Balance row + Debits_Invoices row - Credits_Payments row
        \<and> Opening_Balance row
            = OpeningInvoices invs from_date (Customer_Name row)
              - OpeningPayments invs pays from_date (Customer_Name row)
        \<and> Debits_Invoices row = DebitsInRange invs from_date to_date (Customer_Name row)
        \<and> Credits_Payments row
            = CreditsInRange invs pays from_date to_date (Customer_Name row)"
    by (auto simp: banker_report_eq banker_line_def)
  ultimately show ?thesis unfolding names by (intro conjI)
qed

theorem C3_banker_balance_witness:
  "create_banker_report [inv1, inv2, inv3] [pay1, pay2, pay3, pay4] (ymd 2024 4 1) (ymd 2024 9 30)
     = [\<lparr>Customer_Name = ''Al'', Opening_Balance = 0, Debits_Invoices = 200,
          Credits_Payments = 0, Balance = 200\<rparr>,
        \<lparr>Customer_Name = ''Bob'', Opening_Balance = 200, Debits_Invoices = 1000,
          Credits_Payments = 600, Balance = 600\<rparr>]
   \<and> slice_customers [inv1, inv2, inv3] [pay1, pay2, pay3, pay4] (ymd 2024 4 1) (ymd 2024 9 30)
       = {''Al'', ''Bob''}
   \<and> OpeningInvoices [inv1, inv2, inv3] (ymd 2024 4 1) ''Bob''
       - OpeningPayments [inv1, inv2, inv3] [pay1, pay2, pay3, pay4] (ymd 2024 4 1) ''Bob'' = 200
   \<and> DebitsInRange [inv1, inv2, inv3] (ymd 2024 4 1) (ymd 2024 9 30) ''Bob'' = 1000
   \<and> CreditsInRange [inv1, inv2, inv3] [pay1, pay2, pay3, pay4] (ymd 2024 4 1) (ymd 2024 9 30)
        ''Bob'' = 600
   \<and> OpeningPayments [inv1, inv2, inv3] [pay1, pay2, pay3, pay4] (ymd 2024 4 1) ''Al'' = 0"
proof -
  have rep: "create_banker_report [inv1, inv2, inv3] [pay1, pay2, pay3, pay4]
       (ymd 2024 4 1) (ymd 2024 9 30)
     = [\<lparr>Customer_Name = ''Al'', Opening_Balance = 0, Debits_Invoices = 200,
          Credits_Payments = 0, Balance = 200\<rparr>,
        \<lparr>Customer_Name = ''Bob'', Opening_Balance = 200, Debits_Invoices = 1000,
          Credits_Payments = 600, Balance = 600\<rparr>]"
    by code_simp
  have al: "OpeningPayments [inv1, inv2, inv3] [pay1, pay2, pay3, pay4] (ymd 2024 4 1) ''Al'' = 0"
    by code_simp
  from C3_banker_balance [of "[inv1, inv2, inv3]" "[pay1, pay2, pay3, pay4]"
      "ymd 2024 4 1" "ymd 2024 9 30"] rep al
  show ?thesis by auto
qed

subsection \<open>Customer ledger\<close>












subsection \<open>Segment wise report\<close>


















subsection \<open>Orphaned payments\<close>
















subsection \<open>Payments received per bucket\<close>

















subsection \<open>Empty selections\<close>

text \<open>
  C8 asks every generator to return a well-formed, empty or zero-filled table when the
  filters match nothing. Evaluated on the sample workbook with a date range that holds no
  invoice and no payment (15 June 2024 only), and on empty sheets, the Receivables report
  ends in ValueError and the Customer Ledger in KeyError.
\<close>

theorem C8_empty_selection_raises:
  "create_receivables_report (ymd 2024 9 1) [inv1, inv2, inv3] [pay1, pay2, pay3, pay4]
       (ymd 2024 6 15) (ymd 2024 6 15) GrandTotal = Inl ValueError
   \<and> create_customer_ledger [inv1, inv2, inv3] [pay1, pay2, pay3, pay4]
       (ymd 2024 6 15) (ymd 2024 6 15) ''Bob'' = Inl KeyError
   \<and> create_receivables_report (ymd 2024 9 1) [] [] (ymd 2024 4 1) (ymd 2024 9 30) CustomerName
       = Inl ValueError
   \<and> create_customer_ledger [] [] (ymd 2024 4 1) (ymd 2024 9 30) ''Bob'' = Inl KeyError"
  by code_simp

end
